theory Spec2Isabelle
  imports Complex_Main
begin

section \<open>Data model (src/types/index.ts)\<close>

text \<open>
  JavaScript numbers are modelled as rationals (the finite values the settings sliders and
  JSON can hold), timestamps (\<open>Date\<close>) as milliseconds since the epoch, strings as
  \<open>string\<close>. An optional field \<open>f?: T\<close> is a \<open>T option\<close>.
\<close>

record User =
  user_id :: string
  email :: string
  pin :: string
  name :: string
  joinDate :: "string option"
  bio :: "string option"
  weight :: "string option"
  height :: "string option"
  bloodGroup :: "string option"
  allergies :: "string option"
  interests :: "string option"
  profilePhoto :: "string option"

record AccessibilitySettings =
  brightness :: rat
  textZoom :: rat
  voiceSpeed :: rat
  isDarkMode :: bool

datatype ReminderCategory = medication | doctor | therapy | exercise | personal | emergency_cat
datatype ReminderPriority = low | medium | high | emergency
datatype ReminderRecurrence = once | daily | weekly | monthly

record Reminder =
  reminder_id :: string
  title :: string
  description :: "string option"
  date :: int
  time :: int
  isCompleted :: bool
  isActive :: bool
  createdAt :: int
  updatedAt :: int
  category :: "ReminderCategory option"
  priority :: "ReminderPriority option"
  recurrence :: "ReminderRecurrence option"

section \<open>Application state store (contexts/AppContext)\<close>

record AppState =
  user :: "User option"
  isLoggedIn :: bool
  hasCompletedSetup :: bool
  accessibilitySettings :: AccessibilitySettings
  isVoiceEnabled :: bool
  voiceAnnouncementsEnabled :: bool
  reminders :: "Reminder list"

text \<open>
  \<open>Partial<T>\<close>: every key may be absent (\<open>None\<close>). For a key that is itself optional
  in \<open>T\<close> the present value may be \<open>undefined\<close>, hence the nested option.
\<close>

record PartialUser =
  p_user_id :: "string option"
  p_email :: "string option"
  p_pin :: "string option"
  p_name :: "string option"
  p_joinDate :: "string option option"
  p_bio :: "string option option"
  p_weight :: "string option option"
  p_height :: "string option option"
  p_bloodGroup :: "string option option"
  p_allergies :: "string option option"
  p_interests :: "string option option"
  p_profilePhoto :: "string option option"

record PartialSettings =
  p_brightness :: "rat option"
  p_textZoom :: "rat option"
  p_voiceSpeed :: "rat option"
  p_isDarkMode :: "bool option"

record PartialAppState =
  p_user :: "User option option"
  p_isLoggedIn :: "bool option"
  p_hasCompletedSetup :: "bool option"
  p_accessibilitySettings :: "AccessibilitySettings option"
  p_isVoiceEnabled :: "bool option"
  p_voiceAnnouncementsEnabled :: "bool option"
  p_reminders :: "Reminder list option"

datatype AppAction =
    LOGIN User
  | UPDATE_USER PartialUser
  | LOGOUT
  | COMPLETE_SETUP
  | UPDATE_ACCESSIBILITY_SETTINGS PartialSettings
  | TOGGLE_VOICE bool
  | TOGGLE_VOICE_ANNOUNCEMENTS bool
  | ADD_REMINDER Reminder
  | UPDATE_REMINDER Reminder
  | DELETE_REMINDER string
  | TOGGLE_REMINDER string
  | LOAD_DATA PartialAppState
  | SET_REMINDERS "Reminder list"

definition initialState :: AppState where
  "initialState =
     \<lparr> user = None,
       isLoggedIn = False,
       hasCompletedSetup = False,
       accessibilitySettings =
         \<lparr> brightness = 50, textZoom = 100, voiceSpeed = 1, isDarkMode = False \<rparr>,
       isVoiceEnabled = False,
       voiceAnnouncementsEnabled = True,
       reminders = [] \<rparr>"

text \<open>Object spread \<open>{...a, ...b}\<close>, one key at a time: a key present in \<open>b\<close> wins.\<close>

definition spread :: "'a \<Rightarrow> 'a option \<Rightarrow> 'a" where
  "spread old new = (case new of None \<Rightarrow> old | Some v \<Rightarrow> v)"

definition spreadUser :: "User \<Rightarrow> PartialUser \<Rightarrow> User" where
  "spreadUser u p =
     \<lparr> user_id = spread (user_id u) (p_user_id p),
       email = spread (email u) (p_email p),
       pin = spread (pin u) (p_pin p),
       name = spread (name u) (p_name p),
       joinDate = spread (joinDate u) (p_joinDate p),
       bio = spread (bio u) (p_bio p),
       weight = spread (weight u) (p_weight p),
       height = spread (height u) (p_height p),
       bloodGroup = spread (bloodGroup u) (p_bloodGroup p),
       allergies = spread (allergies u) (p_allergies p),
       interests = spread (interests u) (p_interests p),
       profilePhoto = spread (profilePhoto u) (p_profilePhoto p) \<rparr>"

definition spreadSettings :: "AccessibilitySettings \<Rightarrow> PartialSettings \<Rightarrow> AccessibilitySettings" where
  "spreadSettings a p =
     \<lparr> brightness = spread (brightness a) (p_brightness p),
       textZoom = spread (textZoom a) (p_textZoom p),
       voiceSpeed = spread (voiceSpeed a) (p_voiceSpeed p),
       isDarkMode = spread (isDarkMode a) (p_isDarkMode p) \<rparr>"

definition spreadState :: "AppState \<Rightarrow> PartialAppState \<Rightarrow> AppState" where
  "spreadState s p =
     \<lparr> user = spread (user s) (p_user p),
       isLoggedIn = spread (isLoggedIn s) (p_isLoggedIn p),
       hasCompletedSetup = spread (hasCompletedSetup s) (p_hasCompletedSetup p),
       accessibilitySettings = spread (accessibilitySettings s) (p_accessibilitySettings p),
       isVoiceEnabled = spread (isVoiceEnabled s) (p_isVoiceEnabled p),
       voiceAnnouncementsEnabled =
         spread (voiceAnnouncementsEnabled s) (p_voiceAnnouncementsEnabled p),
       reminders = spread (reminders s) (p_reminders p) \<rparr>"

fun appReducer :: "AppState \<Rightarrow> AppAction \<Rightarrow> AppState" where
  "appReducer state (LOGIN payload) = state\<lparr> user := Some payload, isLoggedIn := True \<rparr>"
| "appReducer state (UPDATE_USER payload) =
     state\<lparr> user := (case user state of
                        Some u \<Rightarrow> Some (spreadUser u payload)
                      | None \<Rightarrow> user state) \<rparr>"
| "appReducer state LOGOUT = initialState"
| "appReducer state COMPLETE_SETUP = state\<lparr> hasCompletedSetup := True \<rparr>"
| "appReducer state (UPDATE_ACCESSIBILITY_SETTINGS payload) =
     state\<lparr> accessibilitySettings := spreadSettings (accessibilitySettings state) payload \<rparr>"
| "appReducer state (TOGGLE_VOICE payload) = state\<lparr> isVoiceEnabled := payload \<rparr>"
| "appReducer state (TOGGLE_VOICE_ANNOUNCEMENTS payload) =
     state\<lparr> voiceAnnouncementsEnabled := payload \<rparr>"
| "appReducer state (ADD_REMINDER payload) =
     state\<lparr> reminders := reminders state @ [payload] \<rparr>"
| "appReducer state (UPDATE_REMINDER payload) =
     state\<lparr> reminders :=
       map (\<lambda>reminder. if reminder_id reminder = reminder_id payload then payload else reminder)
         (reminders state) \<rparr>"
| "appReducer state (DELETE_REMINDER payload) =
     state\<lparr> reminders := filter (\<lambda>reminder. reminder_id reminder \<noteq> payload) (reminders state) \<rparr>"
| "appReducer state (TOGGLE_REMINDER payload) =
     state\<lparr> reminders :=
       map (\<lambda>reminder. if reminder_id reminder = payload
                        then reminder\<lparr> isCompleted := \<not> isCompleted reminder \<rparr>
                        else reminder)
         (reminders state) \<rparr>"
| "appReducer state (LOAD_DATA payload) = spreadState state payload"
| "appReducer state (SET_REMINDERS payload) = state\<lparr> reminders := payload \<rparr>"

text \<open>A sequence of dispatches, from a given state.\<close>

definition dispatchAll :: "AppState \<Rightarrow> AppAction list \<Rightarrow> AppState" where
  "dispatchAll state actions = foldl appReducer state actions"

section \<open>Persistent key-value store (AsyncStorage) as seen by the store and the screens\<close>

text \<open>
  What \<open>getItem(key)\<close> followed by \<open>JSON.parse\<close> yields: nothing usable (\<open>null\<close> or the
  empty string, both falsy), a text on which \<open>JSON.parse\<close> or the first property read throws,
  or a value. \<open>st_writable\<close> says whether \<open>setItem\<close> resolves; when it rejects, the
  surrounding \<open>try\<close> block is left through its \<open>catch\<close>.
\<close>

datatype 'a stored = Absent | Malformed | Parsed 'a

record Storage =
  st_user :: "User stored"
  st_users :: "User list stored"
  st_accessibilitySettings :: "PartialSettings stored"
  st_hasCompletedSetup :: "bool stored"
  st_reminders :: "string \<Rightarrow> Reminder list stored"
  st_writable :: bool

text \<open>Truthiness of an optional string: \<open>undefined\<close> and \<open>''\<close> are falsy.\<close>

definition truthy :: "string option \<Rightarrow> bool" where
  "truthy v = (case v of None \<Rightarrow> False | Some s \<Rightarrow> s \<noteq> [])"

text \<open>
  The result of an effect or of a screen handler: the actions it dispatched (in order), the
  storage it leaves, the alert shown and the text handed to the screen's \<open>speakText\<close>,
  and whether an error was logged with \<open>console.error\<close>.
\<close>

record Outcome =
  dispatched :: "AppAction list"
  storage :: Storage
  alert :: "(string \<times> string) option"
  said :: "string option"
  logged :: bool

definition quiet :: "AppAction list \<Rightarrow> Storage \<Rightarrow> Outcome" where
  "quiet acts st =
     \<lparr> dispatched = acts, storage = st, alert = None, said = None, logged = False \<rparr>"

definition caught :: "AppAction list \<Rightarrow> Storage \<Rightarrow> Outcome" where
  "caught acts st =
     \<lparr> dispatched = acts, storage = st, alert = None, said = None, logged = True \<rparr>"

subsection \<open>\<open>loadData\<close>: rehydration at process start\<close>

text \<open>
  One \<open>try\<close> block holds the three slices in the order user, settings, setup flag; an
  exception anywhere in it ends the block in the \<open>catch\<close>, which logs.
\<close>

definition loadData_setup :: "AppAction list \<Rightarrow> Storage \<Rightarrow> Outcome" where
  "loadData_setup acts st =
     (case st_hasCompletedSetup st of
        Absent \<Rightarrow> quiet acts st
      | Malformed \<Rightarrow> caught acts st
      | Parsed b \<Rightarrow>
          quiet (acts @ [LOAD_DATA \<lparr> p_user = None, p_isLoggedIn = None,
                   p_hasCompletedSetup = Some b, p_accessibilitySettings = None,
                   p_isVoiceEnabled = None, p_voiceAnnouncementsEnabled = None,
                   p_reminders = None \<rparr>]) st)"

definition loadData_settings :: "AppAction list \<Rightarrow> Storage \<Rightarrow> Outcome" where
  "loadData_settings acts st =
     (case st_accessibilitySettings st of
        Absent \<Rightarrow> loadData_setup acts st
      | Malformed \<Rightarrow> caught acts st
      | Parsed p \<Rightarrow> loadData_setup (acts @ [UPDATE_ACCESSIBILITY_SETTINGS p]) st)"

definition loadData :: "string \<Rightarrow> Storage \<Rightarrow> Outcome" where
  "loadData now st =
     (case st_user st of
        Absent \<Rightarrow> loadData_settings [] st
      | Malformed \<Rightarrow> caught [] st
      | Parsed parsedUser \<Rightarrow>
          (let userWithJoinDate =
                 (if truthy (joinDate parsedUser) then parsedUser
                  else parsedUser\<lparr> joinDate := Some now \<rparr>)
           in if \<not> truthy (joinDate parsedUser) then
                (if st_writable st
                 then loadData_settings [LOGIN userWithJoinDate]
                        (st\<lparr> st_user := Parsed userWithJoinDate \<rparr>)
                 else caught [LOGIN userWithJoinDate] st)
              else loadData_settings [LOGIN userWithJoinDate] st))"

text \<open>\<open>usersRaw ? JSON.parse(usersRaw) : []\<close>; \<open>None\<close> when \<open>JSON.parse\<close> throws.\<close>

definition readUsers :: "Storage \<Rightarrow> User list option" where
  "readUsers st =
     (case st_users st of Absent \<Rightarrow> Some [] | Malformed \<Rightarrow> None | Parsed us \<Rightarrow> Some us)"

subsection \<open>\<open>saveData\<close>: the effect that persists the state\<close>

text \<open>
  \<open>{...users[idx], ...state.user}\<close> on the directory entry: the keys the current user has
  win, a key it lacks keeps the entry's value.
\<close>

definition keep :: "'a option \<Rightarrow> 'a option \<Rightarrow> 'a option" where
  "keep old new = (case new of None \<Rightarrow> old | Some v \<Rightarrow> Some v)"

definition spreadStored :: "User \<Rightarrow> User \<Rightarrow> User" where
  "spreadStored old new =
     \<lparr> user_id = user_id new, email = email new, pin = pin new, name = name new,
       joinDate = keep (joinDate old) (joinDate new),
       bio = keep (bio old) (bio new),
       weight = keep (weight old) (weight new),
       height = keep (height old) (height new),
       bloodGroup = keep (bloodGroup old) (bloodGroup new),
       allergies = keep (allergies old) (allergies new),
       interests = keep (interests old) (interests new),
       profilePhoto = keep (profilePhoto old) (profilePhoto new) \<rparr>"

text \<open>\<open>findIndex\<close> by id, then replace in place, or \<open>unshift\<close> when there is no such entry.\<close>

definition upsertUser :: "User \<Rightarrow> User list \<Rightarrow> User list" where
  "upsertUser u users =
     (let idx = length (takeWhile (\<lambda>x. user_id x \<noteq> user_id u) users)
      in if idx < length users then users[idx := spreadStored (users ! idx) u]
         else u # users)"

text \<open>What \<open>JSON.stringify(state.accessibilitySettings)\<close> parses back to: all four keys.\<close>

definition storedSettings :: "AccessibilitySettings \<Rightarrow> PartialSettings" where
  "storedSettings a =
     \<lparr> p_brightness = Some (brightness a), p_textZoom = Some (textZoom a),
       p_voiceSpeed = Some (voiceSpeed a), p_isDarkMode = Some (isDarkMode a) \<rparr>"

text \<open>
  The writes of \<open>saveData\<close> for a given state, in their order: the user and the users
  directory (when a user is logged in; a directory that does not parse is skipped by the
  inner \<open>try\<close>), the settings, the setup flag, the user's reminders. A rejected
  \<open>setItem\<close> ends the block in its \<open>catch\<close>: the first write is then the one that fails,
  and nothing is written.
\<close>

definition saveData :: "AppState \<Rightarrow> Storage \<Rightarrow> Outcome" where
  "saveData state st =
     (if \<not> st_writable st then caught [] st
      else
        (let st1 = (case user state of
                      None \<Rightarrow> st
                    | Some u \<Rightarrow>
                        (case readUsers st of
                           None \<Rightarrow> st\<lparr> st_user := Parsed u \<rparr>
                         | Some users \<Rightarrow>
                             st\<lparr> st_user := Parsed u,
                                 st_users := Parsed (upsertUser u users) \<rparr>));
             st2 = st1\<lparr> st_accessibilitySettings :=
                            Parsed (storedSettings (accessibilitySettings state)),
                          st_hasCompletedSetup := Parsed (hasCompletedSetup state) \<rparr>;
             st3 = (case user state of
                      None \<Rightarrow> st2
                    | Some u \<Rightarrow>
                        st2\<lparr> st_reminders :=
                               (st_reminders st2)(user_id u := Parsed (reminders state)) \<rparr>)
         in quiet [] st3))"

subsection \<open>The effects of the first render\<close>

text \<open>
  On a fresh process the provider starts from \<open>initialState\<close> and its effects start in
  the order they are declared. \<open>loadData\<close> issues \<open>getItem('user')\<close> and is suspended at
  that \<open>await\<close>; \<open>saveData\<close> then starts with the initial state (no user) and issues its
  writes of the settings and of the setup flag; the second and the third \<open>getItem\<close> of
  \<open>loadData\<close> are issued after them. So \<open>loadData\<close> reads the user entry as it was
  persisted, and the other two entries as \<open>saveData\<close> has left them.
\<close>

definition loadData_on_mount :: "string \<Rightarrow> Storage \<Rightarrow> Outcome" where
  "loadData_on_mount now st =
     (let userData = st_user st;
          written = storage (saveData initialState st)
      in loadData now (written\<lparr> st_user := userData \<rparr>))"


subsection \<open>\<open>loadUserReminders\<close>: the effect that runs after \<open>state.user\<close> has changed\<close>

definition loadUserReminders :: "Storage \<Rightarrow> AppState \<Rightarrow> Outcome" where
  "loadUserReminders st state =
     (case user state of
        None \<Rightarrow> quiet [SET_REMINDERS []] st
      | Some u \<Rightarrow>
          (case st_reminders st (user_id u) of
             Parsed parsedReminders \<Rightarrow> quiet [SET_REMINDERS parsedReminders] st
           | Absent \<Rightarrow> quiet [SET_REMINDERS []] st
           | Malformed \<Rightarrow> caught [] st))"

text \<open>The state after the effect's dispatches have been reduced.\<close>

definition afterLoadUserReminders :: "Storage \<Rightarrow> AppState \<Rightarrow> AppState" where
  "afterLoadUserReminders st state = dispatchAll state (dispatched (loadUserReminders st state))"

text \<open>The persisted reminder list of a user (key \<open>reminders_<id>\<close>), empty when there is none.\<close>

definition persistedReminders :: "Storage \<Rightarrow> User option \<Rightarrow> Reminder list" where
  "persistedReminders st u =
     (case u of
        None \<Rightarrow> []
      | Some v \<Rightarrow> (case st_reminders st (user_id v) of Parsed rs \<Rightarrow> rs | _ \<Rightarrow> []))"

section \<open>Login screen (screens/LoginScreen.tsx)\<close>

text \<open>Strings are taken over ASCII: \<open>\s\<close>, \<open>\d\<close>, \<open>toLowerCase\<close> and \<open>trim\<close> on that range.\<close>

definition isSpace :: "char \<Rightarrow> bool" where
  "isSpace c = (c \<in> set [CHR '' '', CHR 0x09, CHR 0x0A, CHR 0x0B, CHR 0x0C, CHR 0x0D])"

definition isDigit :: "char \<Rightarrow> bool" where
  "isDigit c = (c \<in> set ''0123456789'')"

definition toLowerChar :: "char \<Rightarrow> char" where
  "toLowerChar c =
     (case map_of (zip ''ABCDEFGHIJKLMNOPQRSTUVWXYZ'' ''abcdefghijklmnopqrstuvwxyz'') c of
        Some l \<Rightarrow> l
      | None \<Rightarrow> c)"

definition toLowerCase :: "string \<Rightarrow> string" where
  "toLowerCase s = map toLowerChar s"

definition trim :: "string \<Rightarrow> string" where
  "trim s = rev (dropWhile isSpace (rev (dropWhile isSpace s)))"

text \<open>
  \<open>/^[^\s@]+@[^\s@]+\.[^\s@]+$/\<close>: a non-empty local part, one \<open>@\<close>, and a rest with a
  dot that is neither its first nor its last character; no white space and no further
  \<open>@\<close> anywhere.
\<close>

definition validateEmail :: "string \<Rightarrow> bool" where
  "validateEmail s =
     (let plain = (\<lambda>c. \<not> isSpace c \<and> c \<noteq> CHR ''@'');
          local_part = takeWhile (\<lambda>c. c \<noteq> CHR ''@'') s;
          rest = drop (Suc (length local_part)) s
      in local_part \<noteq> [] \<and> length local_part < length s
         \<and> list_all plain local_part \<and> list_all plain rest
         \<and> CHR ''.'' \<in> set (butlast (tl rest)))"

text \<open>\<open>/^\d{4}$/\<close>\<close>

definition validatePin :: "string \<Rightarrow> bool" where
  "validatePin s = (length s = 4 \<and> list_all isDigit s)"

definition report :: "string \<times> string \<Rightarrow> string \<Rightarrow> Storage \<Rightarrow> Outcome" where
  "report a t st =
     \<lparr> dispatched = [], storage = st, alert = Some a, said = Some t, logged = False \<rparr>"

definition announce :: "AppAction list \<Rightarrow> string \<Rightarrow> Storage \<Rightarrow> Outcome" where
  "announce acts t st =
     \<lparr> dispatched = acts, storage = st, alert = None, said = Some t, logged = False \<rparr>"

definition handleLogin :: "string \<Rightarrow> string \<Rightarrow> string \<Rightarrow> Storage \<Rightarrow> Outcome" where
  "handleLogin emailInput pinInput now st =
     (if \<not> validateEmail emailInput then
        report (''Invalid Email'', ''Please enter a valid email address.'')
          ''Please enter a valid email address'' st
      else if \<not> validatePin pinInput then
        report (''Invalid PIN'', ''Please enter a 4-digit PIN.'') ''Please enter a 4-digit PIN'' st
      else
        (case readUsers st of
           None \<Rightarrow>
             report (''Login Failed'', ''Please check your credentials and try again.'')
               ''Login failed. Please check your credentials and try again.'' st
         | Some users \<Rightarrow>
             (case find (\<lambda>u. email u = trim (toLowerCase emailInput)) users of
                None \<Rightarrow>
                  report (''No account'', ''This email is not registered. Please sign up.'')
                    ''This email is not registered. Please sign up.'' st
              | Some found \<Rightarrow>
                  if pin found \<noteq> pinInput then
                    report (''Invalid PIN'', ''The PIN you entered is incorrect.'')
                      ''The PIN you entered is incorrect'' st
                  else
                    (let updatedUser =
                           (if truthy (joinDate found) then found
                            else found\<lparr> joinDate := Some now \<rparr>)
                     in if \<not> truthy (joinDate found) then
                          (if st_writable st then
                             announce [LOGIN updatedUser] ''Login successful! Welcome to AccessAid.''
                               (st\<lparr> st_users := Parsed
                                  (map (\<lambda>u. if email u = email updatedUser then updatedUser else u)
                                     users) \<rparr>)
                           else
                             report (''Login Failed'', ''Please check your credentials and try again.'')
                               ''Login failed. Please check your credentials and try again.'' st)
                        else
                          announce [LOGIN updatedUser] ''Login successful! Welcome to AccessAid.''
                            st))))"

text \<open>\<open>nowId\<close> is \<open>Date.now().toString()\<close> at the time of the call.\<close>

definition handleSignUp :: "string \<Rightarrow> string \<Rightarrow> string \<Rightarrow> string \<Rightarrow> Storage \<Rightarrow> Outcome" where
  "handleSignUp emailInput pinInput nameInput nowId st =
     (if \<not> validateEmail emailInput then
        report (''Invalid Email'', ''Please enter a valid email address.'')
          ''Please enter a valid email address'' st
      else if \<not> validatePin pinInput then
        report (''Invalid PIN'', ''Please enter a 4-digit PIN.'') ''Please enter a 4-digit PIN'' st
      else if trim nameInput = [] then
        report (''Name Required'', ''Please enter your name.'') ''Please enter your name'' st
      else
        (case readUsers st of
           None \<Rightarrow>
             report (''Sign Up Failed'', ''Could not create account. Please try again.'')
               ''Could not create account. Please try again.'' st
         | Some users \<Rightarrow>
             if list_ex (\<lambda>u. email u = trim (toLowerCase emailInput)) users then
               report (''Email In Use'', ''This email is already registered. Please sign in.'')
                 ''This email is already registered. Please sign in.'' st
             else
               (let newUser =
                      \<lparr> user_id = nowId,
                        email = trim (toLowerCase emailInput),
                        pin = pinInput,
                        name = trim nameInput,
                        joinDate = None, bio = None, weight = None, height = None,
                        bloodGroup = None, allergies = None, interests = None,
                        profilePhoto = None \<rparr>;
                    nextUsers = newUser # users
                in if st_writable st then
                     announce [LOGIN newUser] ''Account created successfully! Welcome to AccessAid.''
                       (st\<lparr> st_users := Parsed nextUsers \<rparr>)
                   else
                     report (''Sign Up Failed'', ''Could not create account. Please try again.'')
                       ''Could not create account. Please try again.'' st)))"

section \<open>Calls of the speech engine (\<open>Speech.speak(text, options)\<close>)\<close>

record SpeakOptions =
  rate :: "rat option"
  pitch :: "rat option"
  language :: "string option"
  quality :: "string option"

text \<open>A site yields the call it makes, or \<open>None\<close> when it returns without speaking.\<close>

type_synonym SpeechCall = "(string \<times> SpeakOptions) option"

text \<open>\<open>Math.max(0.5, Math.min(state.accessibilitySettings.voiceSpeed, 2.0))\<close>\<close>

definition safeRate :: "AppState \<Rightarrow> rat" where
  "safeRate state = max (1 / 2) (min (voiceSpeed (accessibilitySettings state)) 2)"

definition LoginScreen_speakText :: "AppState \<Rightarrow> string \<Rightarrow> SpeechCall" where
  "LoginScreen_speakText state text =
     (if \<not> voiceAnnouncementsEnabled state then None
      else Some (text, \<lparr> rate = Some (safeRate state), pitch = Some 1,
                         language = None, quality = None \<rparr>))"

definition LoginScreen_toggleVoiceAnnouncements :: "AppState \<Rightarrow> AppAction \<times> SpeechCall" where
  "LoginScreen_toggleVoiceAnnouncements state =
     (let newState = \<not> voiceAnnouncementsEnabled state
      in (TOGGLE_VOICE_ANNOUNCEMENTS newState,
          if newState
          then Some (''Voice announcements enabled'',
                 \<lparr> rate = Some (safeRate state), pitch = Some 1,
                   language = None, quality = None \<rparr>)
          else None))"

definition ProfileScreen_speakText :: "AppState \<Rightarrow> string \<Rightarrow> SpeechCall" where
  "ProfileScreen_speakText state text =
     (if \<not> voiceAnnouncementsEnabled state then None
      else Some (text, \<lparr> rate = Some (safeRate state), pitch = Some 1,
                         language = None, quality = None \<rparr>))"

definition HomeScreen_speakText :: "AppState \<Rightarrow> string \<Rightarrow> SpeechCall" where
  "HomeScreen_speakText state text =
     (if trim text = [] then None
      else if \<not> voiceAnnouncementsEnabled state then None
      else Some (text, \<lparr> rate = Some (safeRate state), pitch = Some 1,
                         language = None, quality = None \<rparr>))"

text \<open>\<open>speakDirect(text, options?)\<close>: \<open>options || { language: 'en-US', rate: 1.0 }\<close>.\<close>

definition speakDirect :: "AppState \<Rightarrow> string \<Rightarrow> SpeakOptions option \<Rightarrow> SpeechCall" where
  "speakDirect state text options =
     (if \<not> voiceAnnouncementsEnabled state then None
      else Some (text,
             (case options of
                Some opts \<Rightarrow> opts
              | None \<Rightarrow> \<lparr> rate = Some 1, pitch = None,
                          language = Some ''en-US'', quality = None \<rparr>)))"

text \<open>
  Reading a text aloud on the home screen (after the camera, the gallery, a file, and in
  \<open>handleReadAgain\<close>): \<open>speakDirect(text, { language: 'en-US', rate: safeRate, pitch: 1.0 })\<close>
  under \<open>if (state.voiceAnnouncementsEnabled)\<close>.
\<close>

definition HomeScreen_readAloud :: "AppState \<Rightarrow> string \<Rightarrow> SpeechCall" where
  "HomeScreen_readAloud state text =
     (if voiceAnnouncementsEnabled state
      then speakDirect state text
             (Some \<lparr> rate = Some (safeRate state), pitch = Some 1,
                     language = Some ''en-US'', quality = None \<rparr>)
      else None)"

text \<open>The welcome message spoken when the accessibility setup screen mounts.\<close>

definition AccessibilitySetupScreen_welcome :: "AppState \<Rightarrow> SpeechCall" where
  "AccessibilitySetupScreen_welcome state =
     (if voiceAnnouncementsEnabled state
      then Some (''Welcome to AccessAid! Let's set up your accessibility preferences for the best experience.'',
             \<lparr> rate = Some (voiceSpeed (accessibilitySettings state)), pitch = Some 1,
               language = None, quality = Some ''Enhanced'' \<rparr>)
      else None)"

text \<open>The rate a call hands to the engine.\<close>

definition rateOf :: "SpeechCall \<Rightarrow> rat option" where
  "rateOf c = (case c of None \<Rightarrow> None | Some (t, opts) \<Rightarrow> rate opts)"

section \<open>Camera reading: preparing the OCR payload (screens/HomeScreen.tsx)\<close>

text \<open>
  The image manipulator and the file system are collaborators: they are parameters here.
  A collaborator that throws returns \<open>Inl\<close> with the error's message; \<open>Inr\<close> holds its result.
\<close>

record ImagePickerAsset =
  asset_uri :: string
  asset_width :: "nat option"

record FileInfo =
  file_exists :: bool
  isDirectory :: bool
  file_size :: "nat option"

definition MB :: nat where
  "MB = 1024 * 1024"

text \<open>
  \<open>manipulateAsync(uri, [{resize: {width}}], {compress: 0.7, format: JPEG, base64: true})\<close>
  is \<open>manipulateAsync uri width\<close>; its result's \<open>base64\<close> field may be missing.
\<close>

definition prepareImageForOCR ::
  "(string \<Rightarrow> nat \<Rightarrow> string + string option) \<Rightarrow> ImagePickerAsset \<Rightarrow> string + (string \<times> string)" where
  "prepareImageForOCR manipulateAsync asset =
     (let targetWidth = min (case asset_width asset of None \<Rightarrow> 1600 | Some w \<Rightarrow> w) 1600
      in case manipulateAsync (asset_uri asset) targetWidth of
           Inl e \<Rightarrow> Inl e
         | Inr manipResult \<Rightarrow>
             (case manipResult of
                None \<Rightarrow> Inl ''Unable to process image. Please try again with a different photo.''
              | Some base64 \<Rightarrow>
                  if base64 = [] then
                    Inl ''Unable to process image. Please try again with a different photo.''
                  else
                    (let estimatedSizeBytes = (rat_of_nat (length base64) * 3) / 4
                     in if estimatedSizeBytes > rat_of_nat MB then
                          Inl ''Image is still larger than 1 MB. Please choose a smaller image.''
                        else Inr (base64, ''image/jpeg''))))"

definition fileToBase64 ::
  "(string \<Rightarrow> string + FileInfo) \<Rightarrow> (string \<Rightarrow> string + string) \<Rightarrow> string \<Rightarrow> string + string" where
  "fileToBase64 getInfoAsync readAsStringAsync fileUri =
     (case getInfoAsync fileUri of
        Inl e \<Rightarrow> Inl e
      | Inr info \<Rightarrow>
          if \<not> file_exists info \<or> isDirectory info then
            Inl ''File not found or is a directory.''
          else
            (case file_size info of
               None \<Rightarrow> readAsStringAsync fileUri
             | Some sz \<Rightarrow>
                 if sz \<noteq> 0 \<and> sz > MB then
                   Inl ''File size exceeds 1 MB limit. Please choose a smaller file.''
                 else readAsStringAsync fileUri))"

text \<open>
  The arguments \<open>(base64, mimeType)\<close> with which \<open>handleTakePicture\<close> and
  \<open>handleUploadImage\<close> call \<open>extractTextWithOCRSpace\<close>; \<open>None\<close> when the preparation threw
  and the handler returned after its alert.
\<close>

definition imageOCRCall ::
  "(string \<Rightarrow> nat \<Rightarrow> string + string option) \<Rightarrow> ImagePickerAsset \<Rightarrow> (string \<times> string) option" where
  "imageOCRCall manipulateAsync asset =
     (case prepareImageForOCR manipulateAsync asset of
        Inl message \<Rightarrow> None
      | Inr processedImage \<Rightarrow> Some processedImage)"

text \<open>\<open>haystack.includes(needle)\<close>\<close>

fun includes_str :: "string \<Rightarrow> string \<Rightarrow> bool" where
  "includes_str [] needle = (needle = [])"
| "includes_str (c # cs) needle = (take (length needle) (c # cs) = needle \<or> includes_str cs needle)"

record DocumentPickerAsset =
  doc_uri :: string
  doc_mimeType :: "string option"

text \<open>
  The same for \<open>handleUploadFile\<close>: a plain-text file is read without OCR, any other file
  goes through \<open>fileToBase64\<close>.
\<close>

definition fileOCRCall ::
  "(string \<Rightarrow> string + FileInfo) \<Rightarrow> (string \<Rightarrow> string + string) \<Rightarrow> DocumentPickerAsset
     \<Rightarrow> (string \<times> string) option" where
  "fileOCRCall getInfoAsync readAsStringAsync file =
     (let mimeType = toLowerCase (case doc_mimeType file of
                                    None \<Rightarrow> ''application/pdf''
                                  | Some m \<Rightarrow> if m = [] then ''application/pdf'' else m)
      in if includes_str mimeType ''text'' then None
         else (case fileToBase64 getInfoAsync readAsStringAsync (doc_uri file) of
                 Inl message \<Rightarrow> None
               | Inr base64 \<Rightarrow> Some (base64, mimeType)))"

section \<open>Concrete users, reminders and stores for the closed theorems\<close>

definition userA :: User where
  "userA = \<lparr> user_id = ''1700000000001'', email = ''ann@example.com'', pin = ''1234'',
             name = ''Ann'', joinDate = Some ''2024-01-01T00:00:00.000Z'', bio = None,
             weight = None, height = None, bloodGroup = None, allergies = None,
             interests = None, profilePhoto = None \<rparr>"

definition userB :: User where
  "userB = \<lparr> user_id = ''1700000000002'', email = ''bob@example.com'', pin = ''4321'',
             name = ''Bob'', joinDate = Some ''2024-02-02T00:00:00.000Z'', bio = None,
             weight = None, height = None, bloodGroup = None, allergies = None,
             interests = None, profilePhoto = None \<rparr>"

definition reminder1 :: Reminder where
  "reminder1 = \<lparr> reminder_id = ''r1'', title = ''Take pills'', description = None,
                 date = 1700000000000, time = 1700000000000, isCompleted = False,
                 isActive = True, createdAt = 1700000000000, updatedAt = 1700000000000,
                 category = Some medication, priority = Some high, recurrence = Some daily \<rparr>"

definition reminder2 :: Reminder where
  "reminder2 = \<lparr> reminder_id = ''r2'', title = ''Physio'', description = Some ''Knee'',
                 date = 1700000500000, time = 1700000500000, isCompleted = False,
                 isActive = True, createdAt = 1700000000000, updatedAt = 1700000000000,
                 category = Some therapy, priority = None, recurrence = Some weekly \<rparr>"

definition emptyStorage :: Storage where
  "emptyStorage = \<lparr> st_user = Absent, st_users = Absent, st_accessibilitySettings = Absent,
                    st_hasCompletedSetup = Absent, st_reminders = (\<lambda>k. Absent),
                    st_writable = True \<rparr>"

text \<open>Both users are registered; only Ann has persisted reminders.\<close>

definition storeAB :: Storage where
  "storeAB = emptyStorage\<lparr> st_users := Parsed [userA, userB],
               st_reminders := (\<lambda>k. if k = user_id userA then Parsed [reminder1] else Absent) \<rparr>"

text \<open>Ann logged in and her reminders loaded by the effect; then Bob logs in.\<close>

definition stateA :: AppState where
  "stateA = afterLoadUserReminders storeAB (appReducer initialState (LOGIN userA))"

definition stateAthenB :: AppState where
  "stateAthenB = appReducer stateA (LOGIN userB)"

definition fastSettings :: PartialSettings where
  "fastSettings = \<lparr> p_brightness = Some 80, p_textZoom = Some 150, p_voiceSpeed = Some 5,
                    p_isDarkMode = Some True \<rparr>"




text \<open>A manipulator whose JPEG comes out as 1 200 000 base64 characters (900 000 bytes).\<close>

definition bigBase64 :: string where
  "bigBase64 = replicate 1200000 (CHR ''A'')"

definition bigManipulator :: "string \<Rightarrow> nat \<Rightarrow> string + string option" where
  "bigManipulator u w = Inr (Some bigBase64)"

definition photo :: ImagePickerAsset where
  "photo = \<lparr> asset_uri = ''file:///photo.jpg'', asset_width = Some 4000 \<rparr>"

text \<open>A manipulator whose output is past the estimate's limit, and a small one.\<close>

definition hugeBase64 :: string where
  "hugeBase64 = replicate 1400000 (CHR ''A'')"

definition hugeManipulator :: "string \<Rightarrow> nat \<Rightarrow> string + string option" where
  "hugeManipulator u w = Inr (Some hugeBase64)"

definition smallManipulator :: "string \<Rightarrow> nat \<Rightarrow> string + string option" where
  "smallManipulator u w = Inr (Some ''QUJD'')"

text \<open>A PDF of 1000 bytes as the file system reports and reads it.\<close>

definition pdfInfo :: FileInfo where
  "pdfInfo = \<lparr> file_exists = True, isDirectory = False, file_size = Some 1000 \<rparr>"

definition getInfoPdf :: "string \<Rightarrow> string + FileInfo" where
  "getInfoPdf u = Inr pdfInfo"

definition readPdf :: "string \<Rightarrow> string + string" where
  "readPdf u = Inr ''JVBERi0=''"

definition pdfDoc :: DocumentPickerAsset where
  "pdfDoc = \<lparr> doc_uri = ''file:///doc.pdf'', doc_mimeType = Some ''application/PDF'' \<rparr>"

text \<open>A state holding two reminders, added in this order.\<close>

definition stateTwo :: AppState where
  "stateTwo = dispatchAll initialState [ADD_REMINDER reminder1, ADD_REMINDER reminder2]"

section \<open>The reducer\<close>

lemma map_replace_absent:
  "k \<notin> f ` set xs \<Longrightarrow> map (\<lambda>x. if f x = k then p else x) xs = xs"
  by (induction xs) auto



lemma stateTwo_reminders: "reminders stateTwo = [reminder1, reminder2]"
  by (simp add: stateTwo_def dispatchAll_def initialState_def)

lemma stateA_fields: "user stateA = Some userA \<and> reminders stateA = [reminder1]"
  by (simp add: stateA_def afterLoadUserReminders_def loadUserReminders_def quiet_def
      dispatchAll_def storeAB_def emptyStorage_def userA_def)

text \<open>
  Claim C3. Dispatching LOGOUT from any state gives exactly the initial defaults: no user,
  not logged in, setup not completed, brightness 50, text zoom 100, voice speed 1.0, dark
  mode off, voice disabled, voice announcements enabled, no reminders.
\<close>

theorem logout_resets_to_initial_defaults:
  "appReducer state LOGOUT = initialState
   \<and> user (appReducer state LOGOUT) = None
   \<and> \<not> isLoggedIn (appReducer state LOGOUT)
   \<and> \<not> hasCompletedSetup (appReducer state LOGOUT)
   \<and> brightness (accessibilitySettings (appReducer state LOGOUT)) = 50
   \<and> textZoom (accessibilitySettings (appReducer state LOGOUT)) = 100
   \<and> voiceSpeed (accessibilitySettings (appReducer state LOGOUT)) = 1
   \<and> \<not> isDarkMode (accessibilitySettings (appReducer state LOGOUT))
   \<and> \<not> isVoiceEnabled (appReducer state LOGOUT)
   \<and> voiceAnnouncementsEnabled (appReducer state LOGOUT)
   \<and> reminders (appReducer state LOGOUT) = []"
  by (simp add: initialState_def)

text \<open>LOGOUT after a login, loaded reminders, changed settings and a finished setup.\<close>

theorem logout_resets_witness:
  "voiceSpeed (accessibilitySettings
      (dispatchAll stateA [UPDATE_ACCESSIBILITY_SETTINGS fastSettings, COMPLETE_SETUP])) = 5
   \<and> reminders (dispatchAll stateA [UPDATE_ACCESSIBILITY_SETTINGS fastSettings, COMPLETE_SETUP])
       = [reminder1]
   \<and> appReducer (dispatchAll stateA [UPDATE_ACCESSIBILITY_SETTINGS fastSettings, COMPLETE_SETUP])
       LOGOUT = initialState
   \<and> reminders (appReducer
       (dispatchAll stateA [UPDATE_ACCESSIBILITY_SETTINGS fastSettings, COMPLETE_SETUP]) LOGOUT)
       = []"
  using logout_resets_to_initial_defaults
    [of "dispatchAll stateA [UPDATE_ACCESSIBILITY_SETTINGS fastSettings, COMPLETE_SETUP]"]
    stateA_fields
  by (simp add: dispatchAll_def spreadSettings_def spread_def fastSettings_def)

text \<open>
  Claim C10. In the reducer, LOGIN(u) changes only the user and the login flag: every other
  field, the reminder list among them, is what it was, so the previous user's reminders stay
  in the state until a later SET_REMINDERS replaces them.
\<close>

theorem login_changes_only_user_and_flag:
  "appReducer state (LOGIN u) = state\<lparr> user := Some u, isLoggedIn := True \<rparr>
   \<and> reminders (appReducer state (LOGIN u)) = reminders state
   \<and> hasCompletedSetup (appReducer state (LOGIN u)) = hasCompletedSetup state
   \<and> accessibilitySettings (appReducer state (LOGIN u)) = accessibilitySettings state
   \<and> isVoiceEnabled (appReducer state (LOGIN u)) = isVoiceEnabled state
   \<and> voiceAnnouncementsEnabled (appReducer state (LOGIN u)) = voiceAnnouncementsEnabled state
   \<and> reminders (appReducer (appReducer state (LOGIN u)) (SET_REMINDERS rs)) = rs
   \<and> user (appReducer (appReducer state (LOGIN u)) (SET_REMINDERS rs)) = Some u"
  by simp

theorem login_frame_witness:
  "reminders stateA = [reminder1]
   \<and> user (appReducer stateA (LOGIN userB)) = Some userB
   \<and> reminders (appReducer stateA (LOGIN userB)) = [reminder1]
   \<and> reminders (appReducer (appReducer stateA (LOGIN userB)) (SET_REMINDERS [])) = []"
proof -
  note frame = login_changes_only_user_and_flag [of stateA userB "[]"]
  from frame have "reminders (appReducer stateA (LOGIN userB)) = reminders stateA"
    by blast
  with stateA_fields show ?thesis
    by simp
qed

text \<open>
  Claim C8. UPDATE_REMINDER with a reminder whose id is not in the list leaves the state as
  it is; otherwise the list keeps its length and order, every position holding that id now
  holds the payload, every other position is unchanged, and no other field changes.
\<close>

theorem update_reminder_replaces_match_only:
  "(reminder_id p \<notin> reminder_id ` set (reminders state)
      \<longrightarrow> appReducer state (UPDATE_REMINDER p) = state)
   \<and> length (reminders (appReducer state (UPDATE_REMINDER p))) = length (reminders state)
   \<and> (\<forall>i < length (reminders state).
        reminders (appReducer state (UPDATE_REMINDER p)) ! i =
          (if reminder_id (reminders state ! i) = reminder_id p then p else reminders state ! i))
   \<and> appReducer state (UPDATE_REMINDER p) =
        state\<lparr> reminders := reminders (appReducer state (UPDATE_REMINDER p)) \<rparr>"
  by (simp add: map_replace_absent)

theorem update_reminder_witness:
  "reminder_id (reminder2\<lparr> reminder_id := ''r9'' \<rparr>) \<notin> reminder_id ` set (reminders stateTwo)
   \<and> appReducer stateTwo (UPDATE_REMINDER (reminder2\<lparr> reminder_id := ''r9'' \<rparr>)) = stateTwo
   \<and> (0::nat) < length (reminders stateTwo)
   \<and> reminders (appReducer stateTwo (UPDATE_REMINDER (reminder1\<lparr> title := ''Pills at 8'' \<rparr>))) ! 0
       = reminder1\<lparr> title := ''Pills at 8'' \<rparr>
   \<and> reminders (appReducer stateTwo (UPDATE_REMINDER (reminder1\<lparr> title := ''Pills at 8'' \<rparr>))) ! 1
       = reminder2"
proof -
  have absent:
    "reminder_id (reminder2\<lparr> reminder_id := ''r9'' \<rparr>) \<notin> reminder_id ` set (reminders stateTwo)"
    by (simp add: stateTwo_reminders reminder1_def reminder2_def)
  have same: "appReducer stateTwo (UPDATE_REMINDER (reminder2\<lparr> reminder_id := ''r9'' \<rparr>)) = stateTwo"
    using update_reminder_replaces_match_only [of "reminder2\<lparr> reminder_id := ''r9'' \<rparr>" stateTwo]
      absent by blast
  have at: "\<forall>i < length (reminders stateTwo).
      reminders (appReducer stateTwo (UPDATE_REMINDER (reminder1\<lparr> title := ''Pills at 8'' \<rparr>))) ! i =
        (if reminder_id (reminders stateTwo ! i) = reminder_id (reminder1\<lparr> title := ''Pills at 8'' \<rparr>)
         then reminder1\<lparr> title := ''Pills at 8'' \<rparr> else reminders stateTwo ! i)"
    using update_reminder_replaces_match_only [of "reminder1\<lparr> title := ''Pills at 8'' \<rparr>" stateTwo]
    by blast
  have len: "length (reminders stateTwo) = 2"
    by (simp add: stateTwo_reminders)
  from at len have
    "reminders (appReducer stateTwo (UPDATE_REMINDER (reminder1\<lparr> title := ''Pills at 8'' \<rparr>))) ! 0
       = reminder1\<lparr> title := ''Pills at 8'' \<rparr>"
    by (simp add: stateTwo_reminders)
  moreover from at len have
    "reminders (appReducer stateTwo (UPDATE_REMINDER (reminder1\<lparr> title := ''Pills at 8'' \<rparr>))) ! 1
       = reminder2"
    by (simp add: stateTwo_reminders reminder1_def reminder2_def)
  ultimately show ?thesis
    using absent same len by simp
qed

section \<open>The login screen\<close>

lemma storeAB_users: "st_users storeAB = Parsed [userA, userB]"
  by (simp add: storeAB_def emptyStorage_def)

lemma normalise_ann: "trim (toLowerCase ''ANN@Example.COM'') = ''ann@example.com''"
  by (simp add: trim_def toLowerCase_def toLowerChar_def isSpace_def)

lemma validateEmail_ann: "validateEmail ''ANN@Example.COM''"
  by (simp add: validateEmail_def isSpace_def)

lemma validatePin_digits: "validatePin ''9999'' \<and> validatePin ''0000''"
  by (simp add: validatePin_def isDigit_def)

text \<open>
  Claim C5. A sign-up whose normalised email (lower-cased, trimmed) is the email of a user in
  the persisted directory is rejected before anything changes: nothing is dispatched, so the
  application state is what it was, the storage (the users directory in it) is what it was,
  and an alert is shown; with otherwise valid input it is the "Email In Use" alert.
\<close>

theorem signup_existing_email_rejected:
  assumes "st_users st = Parsed users"
    and "\<exists>u \<in> set users. email u = trim (toLowerCase emailInput)"
  shows "dispatched (handleSignUp emailInput pinInput nameInput nowId st) = []
     \<and> storage (handleSignUp emailInput pinInput nameInput nowId st) = st
     \<and> dispatchAll state (dispatched (handleSignUp emailInput pinInput nameInput nowId st)) = state
     \<and> alert (handleSignUp emailInput pinInput nameInput nowId st) \<noteq> None
     \<and> (validateEmail emailInput \<and> validatePin pinInput \<and> trim nameInput \<noteq> []
          \<longrightarrow> alert (handleSignUp emailInput pinInput nameInput nowId st) =
                Some (''Email In Use'', ''This email is already registered. Please sign in.''))"
proof -
  from assms have "readUsers st = Some users"
    and "list_ex (\<lambda>u. email u = trim (toLowerCase emailInput)) users"
    by (simp_all add: readUsers_def list_ex_iff)
  then show ?thesis
    by (simp add: handleSignUp_def report_def dispatchAll_def)
qed

theorem signup_existing_email_witness:
  "st_users storeAB = Parsed [userA, userB]
   \<and> email userA = trim (toLowerCase ''ANN@Example.COM'')
   \<and> dispatched (handleSignUp ''ANN@Example.COM'' ''9999'' ''Annie'' ''1700000000009'' storeAB) = []
   \<and> storage (handleSignUp ''ANN@Example.COM'' ''9999'' ''Annie'' ''1700000000009'' storeAB)
       = storeAB
   \<and> alert (handleSignUp ''ANN@Example.COM'' ''9999'' ''Annie'' ''1700000000009'' storeAB)
       = Some (''Email In Use'', ''This email is already registered. Please sign in.'')"
proof -
  have same: "email userA = trim (toLowerCase ''ANN@Example.COM'')"
    by (simp add: normalise_ann userA_def)
  then have present: "\<exists>u \<in> set [userA, userB]. email u = trim (toLowerCase ''ANN@Example.COM'')"
    by simp
  have name_ok: "trim ''Annie'' \<noteq> []"
    by (simp add: trim_def isSpace_def)
  from signup_existing_email_rejected [OF storeAB_users present,
      of "''9999''" "''Annie''" "''1700000000009''" initialState]
    validateEmail_ann validatePin_digits name_ok storeAB_users same
  show ?thesis
    by blast
qed

text \<open>
  Claim C6. A login that fails authentication (no user of the directory has the normalised
  email, or the first user that has it stores a PIN different from the one entered) is
  reported (an alert and a spoken message) and changes nothing: no action is dispatched, so
  the application state is as before, and the storage is as before.
\<close>

theorem login_auth_failure_leaves_session:
  assumes "readUsers st = Some users"
    and "(\<forall>u \<in> set users. email u \<noteq> trim (toLowerCase emailInput))
         \<or> (\<exists>found. find (\<lambda>u. email u = trim (toLowerCase emailInput)) users = Some found
                    \<and> pin found \<noteq> pinInput)"
  shows "dispatched (handleLogin emailInput pinInput now st) = []
     \<and> storage (handleLogin emailInput pinInput now st) = st
     \<and> dispatchAll state (dispatched (handleLogin emailInput pinInput now st)) = state
     \<and> alert (handleLogin emailInput pinInput now st) \<noteq> None
     \<and> said (handleLogin emailInput pinInput now st) \<noteq> None"
proof -
  let ?f = "find (\<lambda>u. email u = trim (toLowerCase emailInput)) users"
  from assms(2) have "?f = None \<or> (\<exists>found. ?f = Some found \<and> pin found \<noteq> pinInput)"
    by (auto simp: find_None_iff)
  then show ?thesis
  proof
    assume "?f = None"
    with assms(1) show ?thesis
      by (simp add: handleLogin_def report_def dispatchAll_def)
  next
    assume "\<exists>found. ?f = Some found \<and> pin found \<noteq> pinInput"
    then obtain found where "?f = Some found" and "pin found \<noteq> pinInput"
      by blast
    with assms(1) show ?thesis
      by (simp add: handleLogin_def report_def dispatchAll_def)
  qed
qed

text \<open>Ann's email with a wrong PIN.\<close>

theorem login_auth_failure_witness:
  "readUsers storeAB = Some [userA, userB]
   \<and> find (\<lambda>u. email u = trim (toLowerCase ''ANN@Example.COM'')) [userA, userB] = Some userA
   \<and> pin userA \<noteq> ''0000''
   \<and> dispatched (handleLogin ''ANN@Example.COM'' ''0000'' ''2025-01-01T00:00:00.000Z'' storeAB) = []
   \<and> storage (handleLogin ''ANN@Example.COM'' ''0000'' ''2025-01-01T00:00:00.000Z'' storeAB)
       = storeAB
   \<and> alert (handleLogin ''ANN@Example.COM'' ''0000'' ''2025-01-01T00:00:00.000Z'' storeAB)
       \<noteq> None"
proof -
  have dir: "readUsers storeAB = Some [userA, userB]"
    by (simp add: readUsers_def storeAB_users)
  have hit: "find (\<lambda>u. email u = trim (toLowerCase ''ANN@Example.COM'')) [userA, userB] = Some userA"
    by (simp add: normalise_ann userA_def)
  have wrong: "pin userA \<noteq> ''0000''"
    by (simp add: userA_def)
  from hit wrong have
    "(\<forall>u \<in> set [userA, userB]. email u \<noteq> trim (toLowerCase ''ANN@Example.COM''))
     \<or> (\<exists>found. find (\<lambda>u. email u = trim (toLowerCase ''ANN@Example.COM'')) [userA, userB]
                    = Some found \<and> pin found \<noteq> ''0000'')"
    by blast
  from login_auth_failure_leaves_session [OF dir this,
      of "''2025-01-01T00:00:00.000Z''" initialState] dir hit wrong
  show ?thesis
    by blast
qed

text \<open>
  The user a successful sign-up dispatches and stores has no join date, whereas a successful
  login hands on a user whose join date is set (it repairs a missing one).
\<close>

lemma signup_user_has_no_joinDate:
  "dispatched (handleSignUp emailInput pinInput nameInput nowId st) = [LOGIN u]
     \<Longrightarrow> joinDate u = None"
  by (auto simp: handleSignUp_def report_def announce_def Let_def
      split: if_splits option.splits)

lemma login_user_has_joinDate:
  "dispatched (handleLogin emailInput pinInput now st) = [LOGIN u] \<Longrightarrow> now \<noteq> []
     \<Longrightarrow> truthy (joinDate u)"
  by (auto simp: handleLogin_def report_def announce_def Let_def truthy_def
      split: if_splits option.splits)

text \<open>
  Claim C9. Every user record created at sign-up carries a join timestamp. On the code it
  does not: a first sign-up on an empty directory dispatches LOGIN with, and stores, a user
  whose \<open>joinDate\<close> is missing.
\<close>

theorem signup_creates_user_without_joinDate:
  "dispatched (handleSignUp ''Ann@Example.com'' ''1234'' '' Ann '' ''1700000000001'' emptyStorage)
     = [LOGIN (userA\<lparr> joinDate := None \<rparr>)]
   \<and> st_users (storage (handleSignUp ''Ann@Example.com'' ''1234'' '' Ann '' ''1700000000001''
        emptyStorage)) = Parsed [userA\<lparr> joinDate := None \<rparr>]
   \<and> joinDate (userA\<lparr> joinDate := None \<rparr>) = None"
  by (simp add: handleSignUp_def validateEmail_def validatePin_def isSpace_def isDigit_def
      trim_def toLowerCase_def toLowerChar_def readUsers_def emptyStorage_def announce_def
      userA_def Let_def)

section \<open>The store's effects\<close>

text \<open>
  Claim C1 as stated: after every sequence of dispatches the reminder list is the current
  user's. It fails right after a user switch: once Ann's reminders are loaded, LOGIN(Bob)
  gives a state whose user is Bob and whose list is still Ann's, while nothing is persisted
  for Bob.
\<close>

theorem login_switch_keeps_previous_reminders:
  "stateAthenB =
     dispatchAll initialState [LOGIN userA, SET_REMINDERS [reminder1], LOGIN userB]
   \<and> user stateAthenB = Some userB
   \<and> reminders stateAthenB = [reminder1]
   \<and> persistedReminders storeAB (user stateAthenB) = []
   \<and> persistedReminders storeAB (Some userA) = [reminder1]"
proof -
  have trace: "stateAthenB =
      dispatchAll initialState [LOGIN userA, SET_REMINDERS [reminder1], LOGIN userB]"
    by (simp add: stateAthenB_def stateA_def afterLoadUserReminders_def loadUserReminders_def
        quiet_def dispatchAll_def storeAB_def emptyStorage_def userA_def)
  have held: "user stateAthenB = Some userB \<and> reminders stateAthenB = [reminder1]"
    by (simp add: stateAthenB_def stateA_fields)
  have stored: "persistedReminders storeAB (Some userB) = []
      \<and> persistedReminders storeAB (Some userA) = [reminder1]"
    by (simp add: persistedReminders_def storeAB_def emptyStorage_def userA_def userB_def)
  from trace held stored show ?thesis
    by simp
qed

text \<open>
  Claim C1, amended. The reminder list is the current user's once the load effect that
  follows a user change has run: after LOGIN(u) and the SET_REMINDERS that
  \<open>loadUserReminders\<close> dispatches (u's stored list being readable), the user is u and the
  list is u's persisted list, empty when nothing is persisted; with no user the effect
  empties the list; and LOGOUT empties it in the reduction itself.
\<close>

theorem reminders_scoped_after_load_effect:
  assumes "st_reminders st (user_id u) \<noteq> Malformed"
  shows "user (afterLoadUserReminders st (appReducer state (LOGIN u))) = Some u
     \<and> reminders (afterLoadUserReminders st (appReducer state (LOGIN u))) =
         persistedReminders st (Some u)
     \<and> (user state = None \<longrightarrow> reminders (afterLoadUserReminders st state) = [])
     \<and> user (appReducer state LOGOUT) = None
     \<and> reminders (appReducer state LOGOUT) = []"
proof (cases "st_reminders st (user_id u)")
  case Absent
  then show ?thesis
    by (simp add: afterLoadUserReminders_def loadUserReminders_def quiet_def dispatchAll_def
        persistedReminders_def initialState_def)
next
  case Malformed
  with assms show ?thesis
    by simp
next
  case (Parsed rs)
  then show ?thesis
    by (simp add: afterLoadUserReminders_def loadUserReminders_def quiet_def dispatchAll_def
        persistedReminders_def initialState_def)
qed

text \<open>Bob logs in over Ann's session; after the effect the list is Bob's, which is empty.\<close>

theorem reminders_scoped_witness:
  "st_reminders storeAB (user_id userB) \<noteq> Malformed
   \<and> reminders stateA = [reminder1]
   \<and> user (afterLoadUserReminders storeAB (appReducer stateA (LOGIN userB))) = Some userB
   \<and> reminders (afterLoadUserReminders storeAB (appReducer stateA (LOGIN userB))) = []
   \<and> user initialState = None
   \<and> reminders (afterLoadUserReminders storeAB initialState) = []"
proof -
  have readable: "st_reminders storeAB (user_id userB) \<noteq> Malformed"
    by (simp add: storeAB_def emptyStorage_def userA_def userB_def)
  have none: "persistedReminders storeAB (Some userB) = []"
    by (simp add: persistedReminders_def storeAB_def emptyStorage_def userA_def userB_def)
  have fresh: "user initialState = None"
    by (simp add: initialState_def)
  from reminders_scoped_after_load_effect [OF readable, of stateA]
    reminders_scoped_after_load_effect [OF readable, of initialState]
    readable none fresh stateA_fields
  show ?thesis
    by simp
qed

lemma first_render_overwrites:
  assumes "st_writable st"
  shows "st_user (storage (saveData initialState st)) = st_user st"
    and "st_accessibilitySettings (storage (saveData initialState st)) =
           Parsed (storedSettings (accessibilitySettings initialState))"
    and "st_hasCompletedSetup (storage (saveData initialState st)) = Parsed False"
  using assms
  by (simp_all add: saveData_def quiet_def initialState_def)

text \<open>
  With a storage that accepts writes and no persisted user, the settings and the flag that
  \<open>loadData\<close> reads are the ones \<open>saveData\<close> has written at the first render.
\<close>

lemma loadData_on_mount_without_user:
  assumes "st_writable st" and "st_user st = Absent"
  shows "dispatched (loadData_on_mount now st) =
           [UPDATE_ACCESSIBILITY_SETTINGS (storedSettings (accessibilitySettings initialState)),
            LOAD_DATA \<lparr> p_user = None, p_isLoggedIn = None, p_hasCompletedSetup = Some False,
              p_accessibilitySettings = None, p_isVoiceEnabled = None,
              p_voiceAnnouncementsEnabled = None, p_reminders = None \<rparr>]"
    and "\<not> logged (loadData_on_mount now st)"
  using assms first_render_overwrites [OF assms(1)]
  by (simp_all add: loadData_on_mount_def loadData_def loadData_settings_def loadData_setup_def
      Let_def quiet_def)








section \<open>Speech rate\<close>

lemma safeRate_in_range: "1 / 2 \<le> safeRate state \<and> safeRate state \<le> 2"
  by (simp add: safeRate_def)

lemma safeRate_of_valid_speed:
  "1 / 2 \<le> voiceSpeed (accessibilitySettings state)
     \<Longrightarrow> voiceSpeed (accessibilitySettings state) \<le> 2
     \<Longrightarrow> safeRate state = voiceSpeed (accessibilitySettings state)"
  by (simp add: safeRate_def)

text \<open>The sites that clamp: whenever they speak, the rate is \<open>safeRate\<close>.\<close>

lemma clamping_sites:
  "rateOf (LoginScreen_speakText state t) \<in> {None, Some (safeRate state)}"
  "rateOf (snd (LoginScreen_toggleVoiceAnnouncements state)) \<in> {None, Some (safeRate state)}"
  "rateOf (ProfileScreen_speakText state t) \<in> {None, Some (safeRate state)}"
  "rateOf (HomeScreen_speakText state t) \<in> {None, Some (safeRate state)}"
  "rateOf (HomeScreen_readAloud state t) \<in> {None, Some (safeRate state)}"
  by (simp_all add: rateOf_def LoginScreen_speakText_def LoginScreen_toggleVoiceAnnouncements_def
      ProfileScreen_speakText_def HomeScreen_speakText_def HomeScreen_readAloud_def
      speakDirect_def Let_def)

text \<open>\<open>speakDirect\<close> without options speaks at the fixed rate 1.0, whatever the setting.\<close>

lemma speakDirect_default_rate:
  "rateOf (speakDirect state t None) \<in> {None, Some 1}"
  by (simp add: rateOf_def speakDirect_def)

text \<open>
  Claim C2. Every speak call uses the stored voice speed clamped to [0.5, 2.0]. The welcome
  message of the accessibility setup screen does not: with a stored voice speed of 5 and
  announcements enabled it hands the rate 5 to the engine, where the clamp gives 2.
\<close>

theorem setup_welcome_rate_unclamped:
  "voiceSpeed (accessibilitySettings
      (appReducer initialState (UPDATE_ACCESSIBILITY_SETTINGS fastSettings))) = 5
   \<and> rateOf (AccessibilitySetupScreen_welcome
        (appReducer initialState (UPDATE_ACCESSIBILITY_SETTINGS fastSettings))) = Some 5
   \<and> safeRate (appReducer initialState (UPDATE_ACCESSIBILITY_SETTINGS fastSettings)) = 2"
  by (simp add: rateOf_def AccessibilitySetupScreen_welcome_def initialState_def
      spreadSettings_def spread_def fastSettings_def safeRate_def)

section \<open>The OCR payload\<close>

lemma estimate_bound:
  "\<not> (rat_of_nat n * 3) / 4 > rat_of_nat MB \<longleftrightarrow> 3 * n \<le> 4 * MB"
proof -
  have "(rat_of_nat n * 3) / 4 \<le> rat_of_nat MB \<longleftrightarrow> rat_of_nat (3 * n) \<le> rat_of_nat (4 * MB)"
    by (simp add: field_simps)
  also have "\<dots> \<longleftrightarrow> 3 * n \<le> 4 * MB"
    by (simp only: of_nat_le_iff)
  finally show ?thesis
    by (simp add: not_less)
qed

lemma prepared_image_bound:
  assumes "prepareImageForOCR manipulateAsync asset = Inr (base64, mimeType)"
  shows "3 * length base64 \<le> 4 * MB" and "mimeType = ''image/jpeg''" and "base64 \<noteq> []"
  using assms
  by (auto simp: prepareImageForOCR_def Let_def estimate_bound [symmetric]
      split: sum.splits option.splits if_splits)

text \<open>
  Claim C7 as stated: whenever the OCR call is made, the base64 string handed over is at
  most 1 MB. It fails for a JPEG of 900 000 bytes: its 1 200 000 base64 characters pass the
  check, which bounds the estimated decoded size, and are handed to the OCR call.
\<close>

theorem ocr_payload_exceeds_one_MB:
  "imageOCRCall bigManipulator photo = Some (bigBase64, ''image/jpeg'')
   \<and> length bigBase64 = 1200000
   \<and> length bigBase64 > MB"
  by (simp add: imageOCRCall_def prepareImageForOCR_def bigManipulator_def bigBase64_def
      MB_def photo_def)

text \<open>
  Claim C7, amended. For an image, whenever the OCR call is made the estimated decoded size
  of the payload (three quarters of the base64 length) is at most 1 MB, that is, the base64
  string has at most 1 398 101 characters, and an image whose estimate is larger is rejected
  with an error before the call. For a file, the OCR call is made only when the file system
  reports no size or a size of at most 1 MB.
\<close>

theorem ocr_payload_estimate_bounded:
  "(imageOCRCall manipulateAsync asset = Some (base64, mimeType)
      \<longrightarrow> 3 * length base64 \<le> 4 * MB \<and> length base64 \<le> 1398101 \<and> mimeType = ''image/jpeg'')
   \<and> (manipulateAsync (asset_uri asset)
          (min (case asset_width asset of None \<Rightarrow> 1600 | Some w \<Rightarrow> w) 1600) = Inr (Some base64)
        \<and> 3 * length base64 > 4 * MB
      \<longrightarrow> prepareImageForOCR manipulateAsync asset =
            Inl ''Image is still larger than 1 MB. Please choose a smaller image.''
          \<and> imageOCRCall manipulateAsync asset = None)
   \<and> (fileOCRCall getInfoAsync readAsStringAsync file = Some (base64, mimeType)
      \<longrightarrow> (\<exists>info. getInfoAsync (doc_uri file) = Inr info
                  \<and> (case file_size info of None \<Rightarrow> True | Some sz \<Rightarrow> sz \<le> MB)))"
proof (intro conjI impI)
  assume "imageOCRCall manipulateAsync asset = Some (base64, mimeType)"
  then have prep: "prepareImageForOCR manipulateAsync asset = Inr (base64, mimeType)"
    by (simp add: imageOCRCall_def split: sum.splits)
  from prepared_image_bound [OF prep]
  show "3 * length base64 \<le> 4 * MB" and "mimeType = ''image/jpeg''"
    by simp_all
  then show "length base64 \<le> 1398101"
    by (simp add: MB_def)
next
  assume big: "manipulateAsync (asset_uri asset)
          (min (case asset_width asset of None \<Rightarrow> 1600 | Some w \<Rightarrow> w) 1600) = Inr (Some base64)
        \<and> 3 * length base64 > 4 * MB"
  then have "base64 \<noteq> []" and "(rat_of_nat (length base64) * 3) / 4 > rat_of_nat MB"
    using estimate_bound [of "length base64"] by auto
  with big show rejected: "prepareImageForOCR manipulateAsync asset =
            Inl ''Image is still larger than 1 MB. Please choose a smaller image.''"
    by (simp add: prepareImageForOCR_def Let_def)
  then show "imageOCRCall manipulateAsync asset = None"
    by (simp add: imageOCRCall_def)
next
  assume "fileOCRCall getInfoAsync readAsStringAsync file = Some (base64, mimeType)"
  then show "\<exists>info. getInfoAsync (doc_uri file) = Inr info
                  \<and> (case file_size info of None \<Rightarrow> True | Some sz \<Rightarrow> sz \<le> MB)"
    by (auto simp: fileOCRCall_def fileToBase64_def Let_def
        split: sum.splits option.splits if_splits)
qed

theorem ocr_payload_witness:
  "imageOCRCall smallManipulator photo = Some (''QUJD'', ''image/jpeg'')
   \<and> 3 * length ''QUJD'' \<le> 4 * MB
   \<and> hugeManipulator (asset_uri photo)
        (min (case asset_width photo of None \<Rightarrow> 1600 | Some w \<Rightarrow> w) 1600) = Inr (Some hugeBase64)
   \<and> 3 * length hugeBase64 > 4 * MB
   \<and> imageOCRCall hugeManipulator photo = None
   \<and> fileOCRCall getInfoPdf readPdf pdfDoc = Some (''JVBERi0='', ''application/pdf'')
   \<and> getInfoPdf (doc_uri pdfDoc) = Inr pdfInfo
   \<and> file_size pdfInfo = Some 1000"
proof -
  have small: "imageOCRCall smallManipulator photo = Some (''QUJD'', ''image/jpeg'')"
    by (simp add: imageOCRCall_def prepareImageForOCR_def smallManipulator_def MB_def photo_def)
  have huge: "hugeManipulator (asset_uri photo)
        (min (case asset_width photo of None \<Rightarrow> 1600 | Some w \<Rightarrow> w) 1600) = Inr (Some hugeBase64)
      \<and> 3 * length hugeBase64 > 4 * MB"
    by (simp add: hugeManipulator_def hugeBase64_def MB_def)
  have pdf: "fileOCRCall getInfoPdf readPdf pdfDoc = Some (''JVBERi0='', ''application/pdf'')"
    by (simp add: fileOCRCall_def fileToBase64_def getInfoPdf_def readPdf_def pdfDoc_def
        pdfInfo_def MB_def toLowerCase_def toLowerChar_def)
  have info: "getInfoPdf (doc_uri pdfDoc) = Inr pdfInfo \<and> file_size pdfInfo = Some 1000"
    by (simp add: getInfoPdf_def pdfInfo_def)
  from ocr_payload_estimate_bounded
         [of smallManipulator photo "''QUJD''" "''image/jpeg''" getInfoPdf readPdf pdfDoc] small
  have bound: "3 * length ''QUJD'' \<le> 4 * MB"
    by blast
  from ocr_payload_estimate_bounded
         [of hugeManipulator photo hugeBase64 "''image/jpeg''" getInfoPdf readPdf pdfDoc] huge
  have rejected: "imageOCRCall hugeManipulator photo = None"
    by blast
  from small bound huge rejected pdf info show ?thesis
    by blast
qed

end
